theory Spec2Isabelle
  imports Complex_Main
begin

section \<open>Data model of \<^verbatim>\<open>src/min-trade-frontend/src/App.tsx\<close>\<close>

text \<open>
  Values of the TypeScript type \<^verbatim>\<open>number\<close> that come out of a JSON body are finite
  doubles; they are modelled by the rationals. \<^verbatim>\<open>T | null\<close> (and an optional field) is
  \<open>T option\<close>. Counters the component itself produces (the wizard step, a rank
  \<^verbatim>\<open>idx + 1\<close>, the slider value) are integers.
\<close>

type_synonym number = rat

datatype ViewMode = simple | advanced

datatype priority = high | medium | low

record FundMetrics =
  perf_1w :: "number option"
  perf_1m :: "number option"
  perf_3m :: "number option"
  perf_1y :: "number option"
  perf_3y :: "number option"
  vol_60d :: "number option"
  sharpe_ratio :: "number option"
  sortino_ratio :: "number option"
  max_drawdown :: "number option"

record Fund =
  isin :: string
  name :: string
  management_company :: "string option"
  sri :: int
  asset_class :: string
  description :: "string option"
  available_platforms :: "string list"
  is_standard_isin :: bool
  label :: "string option"
  metrics :: "FundMetrics option"
  fundamental_score :: "number option"
  top_week_score :: "number option"
  priority :: "priority option"
  confidence :: "number option"
  reasoning :: "string option"
  quality_score :: "number option"
  valuation_score :: "number option"
  stability_score :: "number option"
  consensus_level :: "string option"

record FundAllocation =
  fund :: Fund
  allocation_percent :: number
  amount_eur :: number

text \<open>
  A \<^verbatim>\<open>Record<string, number>\<close> is an object: its entries are kept in order (the order
  \<^verbatim>\<open>Object.entries\<close> enumerates them), so it is an association list.
\<close>

record PortfolioSuggestion =
  allocations :: "FundAllocation list"
  total_amount :: number
  average_sri :: number
  num_funds :: number
  asset_class_distribution :: "(string \<times> number) list"
  explanation :: string
  average_confidence :: "number option"
  consensus_summary :: "string option"

record Stats =
  total_funds :: number
  standard_isin_funds :: number
  special_funds :: number
  sri_distribution :: "(string \<times> number) list"
  stats_asset_class_distribution :: "(string \<times> number) list"

section \<open>What a component renders\<close>

text \<open>
  The highlight of a card or of a rank tag. \<open>Gold\<close> stands for the amber ring and
  gradient (\<^verbatim>\<open>ring-amber-400/70\<close>, \<^verbatim>\<open>from-amber-500\<close>), \<open>Silver\<close> for the sky one
  (\<^verbatim>\<open>ring-sky-400/60\<close>, \<^verbatim>\<open>from-sky-500\<close>), \<open>Bronze\<close> for the violet one
  (\<^verbatim>\<open>ring-violet-400/50\<close>, \<^verbatim>\<open>from-violet-500\<close>), \<open>NoTier\<close> for no highlight class.
\<close>

datatype tier = Gold | Silver | Bronze | NoTier

text \<open>
  One row of \<^verbatim>\<open>BrainProfile\<close>: a bar of a clamped width (in percent) with the score
  printed beside it (\<^verbatim>\<open>bar.value.toFixed(0)\<close>, carried here as the score itself), or the
  text \<^verbatim>\<open>N/A\<close>; under it the detail line when it is rendered.
\<close>

datatype bar_value = BarValue (width: number) (figure: number) | BarNA

record bar_row =
  bar_label :: string
  bar_shown :: bar_value
  bar_detail :: "string option"

datatype profile =
    ProfileUnavailable  \<comment> \<open>\<^verbatim>\<open>Donnees indisponibles (provider)\<close>\<close>
  | ProfileBars "bar_row list"

text \<open>
  \<^verbatim>\<open>PerformanceStrip\<close>: the text \<^verbatim>\<open>Performances indisponibles\<close>, or one slot per field,
  a slot being its label and its value (\<open>None\<close> is printed \<^verbatim>\<open>N/A\<close>).
\<close>

datatype performance =
    PerformanceUnavailable
  | PerformanceSlots "(string \<times> number option) list"

datatype detail =
    Sharpe number
  | Sortino number
  | MaxDD number
  | ConfidenceProgress number
  | Reasoning string
  | ManagementCompany string

datatype element =
    RankTag int tier  \<comment> \<open>\<^verbatim>\<open>#{rank}\<close>\<close>
  | BareNumber number  \<comment> \<open>what React prints for \<^verbatim>\<open>{x && ...}\<close> when \<^verbatim>\<open>x\<close> is the number 0\<close>
  | FundName string
  | Isin string
  | GlobalScore number tier
  | GlobalScoreNA
  | SRIBadge int
  | AssetClassBadge string
  | PriorityBadge priority
  | Profile profile
  | Performance performance
  | ConfidenceLine number
  | Details "detail list"
  | DetailsToggle bool  \<comment> \<open>the button \<^verbatim>\<open>Plus de details\<close> / \<^verbatim>\<open>Moins de details\<close>\<close>
  | AllocationPercent number
  | AmountEur number
  | ScoreBadge number
  | ConfBadge number

record card =
  card_tier :: tier
  children :: "element list"

section \<open>\<^verbatim>\<open>BrainProfile\<close>\<close>

text \<open>
  One entry of the array \<^verbatim>\<open>bars\<close> as the callback of \<^verbatim>\<open>bars.map\<close> renders it, from its
  label, its detail text and its value.
\<close>

definition bar :: "ViewMode \<Rightarrow> bool \<Rightarrow> string \<Rightarrow> string \<Rightarrow> number option \<Rightarrow> bar_row" where
  "bar viewMode showDetails lbl det v =
     \<lparr>bar_label = lbl,
      bar_shown = (case v of Some x \<Rightarrow> BarValue (min 100 (max 0 x)) x | None \<Rightarrow> BarNA),
      bar_detail = (if v \<noteq> None \<and> (showDetails \<or> viewMode = advanced) then Some det else None)\<rparr>"

definition BrainProfile ::
  "ViewMode \<Rightarrow> number option \<Rightarrow> number option \<Rightarrow> number option \<Rightarrow> bool \<Rightarrow> profile" where
  "BrainProfile viewMode quality valuation stability showDetails =
     (let bars = [bar viewMode showDetails ''Gestion'' ''Sharpe, Sortino, frais'' quality,
                  bar viewMode showDetails ''Valo'' ''PE vs benchmark'' valuation,
                  bar viewMode showDetails ''Stabilite'' ''Max drawdown'' stability];
          allNull = (quality = None \<and> valuation = None \<and> stability = None)
      in if allNull then ProfileUnavailable else ProfileBars bars)"


section \<open>\<^verbatim>\<open>PerformanceStrip\<close>\<close>

definition PerformanceStrip :: "ViewMode \<Rightarrow> FundMetrics option \<Rightarrow> performance" where
  "PerformanceStrip viewMode metrics' =
     (case metrics' of
        None \<Rightarrow> PerformanceUnavailable
      | Some m \<Rightarrow>
          (let items =
                 (if viewMode = simple
                  then [(''1M'', perf_1m m), (''1A'', perf_1y m)]
                  else [(''1S'', perf_1w m), (''1M'', perf_1m m),
                        (''1A'', perf_1y m), (''3A'', perf_3y m)]);
               hasAnyPerf = list_ex (\<lambda>item. snd item \<noteq> None) items
           in if \<not> hasAnyPerf then PerformanceUnavailable
              else PerformanceSlots
                     (items @ (if viewMode = advanced then [(''Vol'', vol_60d m)] else []))))"

section \<open>\<^verbatim>\<open>FundCard\<close>\<close>

text \<open>\<^verbatim>\<open>rank && rank <= 3\<close>: an absent rank and the rank 0 are falsy.\<close>

definition isTopRank :: "int option \<Rightarrow> bool" where
  "isTopRank rank = (case rank of None \<Rightarrow> False | Some r \<Rightarrow> r \<noteq> 0 \<and> r \<le> 3)"

definition topRankStyles :: "int option \<Rightarrow> tier" where
  "topRankStyles rank =
     (if rank = Some 1 then Gold
      else if rank = Some 2 then Silver
      else if rank = Some 3 then Bronze
      else NoTier)"

text \<open>A string is truthy when it is not empty.\<close>

definition truthy :: "string option \<Rightarrow> bool" where
  "truthy s = (case s of None \<Rightarrow> False | Some t \<Rightarrow> t \<noteq> [])"

definition opt_list :: "'a option \<Rightarrow> ('a \<Rightarrow> 'b) \<Rightarrow> 'b list" where
  "opt_list v f = (case v of None \<Rightarrow> [] | Some x \<Rightarrow> [f x])"

definition details_zone :: "Fund \<Rightarrow> detail list" where
  "details_zone f =
     (case metrics f of
        None \<Rightarrow> []
      | Some m \<Rightarrow> opt_list (sharpe_ratio m) Sharpe @ opt_list (sortino_ratio m) Sortino
                  @ opt_list (max_drawdown m) MaxDD)
     @ opt_list (confidence f) (\<lambda>c. ConfidenceProgress (c * 100))
     @ (if truthy (reasoning f) then opt_list (reasoning f) Reasoning else [])
     @ (if truthy (management_company f) then opt_list (management_company f) ManagementCompany
        else [])"

text \<open>
  \<open>expanded\<close> is the card's own state (\<^verbatim>\<open>useState(false)\<close>), \<open>viewMode\<close> the value
  of the context.
\<close>

definition FundCard :: "ViewMode \<Rightarrow> bool \<Rightarrow> Fund \<Rightarrow> int option \<Rightarrow> card" where
  "FundCard viewMode expanded f rank =
     \<lparr>card_tier = (if isTopRank rank then topRankStyles rank else NoTier),
      children =
        (case rank of
           None \<Rightarrow> []
         | Some r \<Rightarrow> if r = 0 then [BareNumber 0] else [RankTag r (topRankStyles rank)])
        @ [FundName (name f), Isin (isin f)]
        @ [case fundamental_score f of
             Some s \<Rightarrow> GlobalScore s (topRankStyles rank)
           | None \<Rightarrow> GlobalScoreNA]
        @ [SRIBadge (sri f), AssetClassBadge (asset_class f)]
        @ opt_list (priority f) PriorityBadge
        @ [Profile (BrainProfile viewMode (quality_score f) (valuation_score f)
                      (stability_score f) False)]
        @ [Performance (PerformanceStrip viewMode (metrics f))]
        @ (if viewMode = simple then opt_list (confidence f) (\<lambda>c. ConfidenceLine (c * 100))
           else [])
        @ (if viewMode = advanced \<or> expanded then [Details (details_zone f)] else [])
        @ (if viewMode = simple then [DetailsToggle expanded] else [])\<rparr>"

section \<open>\<^verbatim>\<open>PortfolioResults\<close>\<close>

datatype tile =
    TotalAmount number  \<comment> \<open>\<^verbatim>\<open>Montant total\<close>\<close>
  | FundCount number  \<comment> \<open>\<^verbatim>\<open>Fonds\<close>\<close>
  | AverageSri number  \<comment> \<open>\<^verbatim>\<open>SRI moyen\<close>\<close>
  | AssetClassCount nat  \<comment> \<open>\<^verbatim>\<open>Classes d'actifs\<close>\<close>

datatype analysis =
    AverageConfidence number  \<comment> \<open>\<^verbatim>\<open>Confiance moyenne\<close>\<close>
  | ConsensusSummary string  \<comment> \<open>\<^verbatim>\<open>Repartition priorites\<close>\<close>

record results_view =
  tiles :: "tile list"
  distribution_badges :: "(string \<times> number) list"
  explanation_text :: string
  analysis_block :: "analysis list option"
  allocation_cards :: "card list"

text \<open>
  The card of one allocation, written inline in \<^verbatim>\<open>portfolio.allocations.map\<close>. In
  \<^verbatim>\<open>{alloc.fund.fundamental_score && (...)}\<close> a score that is \<^verbatim>\<open>null\<close> renders nothing and
  a score that is 0 renders the number itself.
\<close>

definition allocation_card :: "nat \<Rightarrow> FundAllocation \<Rightarrow> card" where
  "allocation_card idx alloc =
     \<lparr>card_tier = NoTier,
      children =
        [RankTag (int idx + 1) NoTier, FundName (name (fund alloc)), Isin (isin (fund alloc)),
         AllocationPercent (allocation_percent alloc), AmountEur (amount_eur alloc),
         SRIBadge (sri (fund alloc)), AssetClassBadge (asset_class (fund alloc))]
        @ opt_list (priority (fund alloc)) PriorityBadge
        @ (case fundamental_score (fund alloc) of
             None \<Rightarrow> []
           | Some s \<Rightarrow> if s = 0 then [BareNumber s] else [ScoreBadge s])
        @ opt_list (confidence (fund alloc)) (\<lambda>c. ConfBadge (c * 100))\<rparr>"

definition PortfolioResults :: "PortfolioSuggestion \<Rightarrow> results_view" where
  "PortfolioResults portfolio' =
     \<lparr>tiles = [TotalAmount (total_amount portfolio'), FundCount (num_funds portfolio'),
               AverageSri (average_sri portfolio'),
               AssetClassCount (length (map fst (asset_class_distribution portfolio')))],
      distribution_badges = asset_class_distribution portfolio',
      explanation_text = explanation portfolio',
      analysis_block =
        (if average_confidence portfolio' \<noteq> None \<or> truthy (consensus_summary portfolio')
         then Some (opt_list (average_confidence portfolio') (\<lambda>c. AverageConfidence (c * 100))
                    @ (if truthy (consensus_summary portfolio')
                       then opt_list (consensus_summary portfolio') ConsensusSummary else []))
         else None),
      allocation_cards =
        map (\<lambda>(idx, alloc). allocation_card idx alloc) (enumerate 0 (allocations portfolio'))\<rparr>"

text \<open>
  The allocation list as the specification words it: the fund card of each constituent
  fund, at its allocation rank, in the current view mode (a card starts collapsed).
\<close>

definition spec_allocation_cards :: "ViewMode \<Rightarrow> PortfolioSuggestion \<Rightarrow> card list" where
  "spec_allocation_cards vm portfolio' =
     map (\<lambda>(idx, alloc). FundCard vm False (fund alloc) (Some (int idx + 1)))
       (enumerate 0 (allocations portfolio'))"

section \<open>\<^verbatim>\<open>PortfolioWizard\<close>\<close>

record wizard =
  step :: int
  amount :: string
  horizon :: string
  targetSri :: "int list"
  loading :: bool
  error :: "string option"
  selectedPreset :: "string option"

definition initial_wizard :: wizard where
  "initial_wizard =
     \<lparr>step = 1, amount = ''100000'', horizon = ''medium'', targetSri = [4], loading = False,
      error = None, selectedPreset = None\<rparr>"






definition select_onValueChange :: "string \<Rightarrow> wizard \<Rightarrow> wizard" where
  "select_onValueChange h w = w\<lparr>horizon := h\<rparr>"

definition input_onChange :: "string \<Rightarrow> wizard \<Rightarrow> wizard" where
  "input_onChange v w = w\<lparr>amount := v\<rparr>"

subsection \<open>The two buttons under the steps\<close>

text \<open>
  The left button runs \<^verbatim>\<open>step === 1 ? onClose() : setStep(step - 1)\<close>: its result is either
  the call of \<^verbatim>\<open>onClose\<close> or the new state. The right button is \<^verbatim>\<open>Suivant\<close>, running
  \<^verbatim>\<open>setStep(step + 1)\<close>, only while \<^verbatim>\<open>step < 3\<close>; otherwise it is the submit button and
  there is no \<^verbatim>\<open>Suivant\<close> to click (\<open>None\<close>).
\<close>

datatype closing = OnClose

definition back_onClick :: "wizard \<Rightarrow> closing + wizard" where
  "back_onClick w = (if step w = 1 then Inl OnClose else Inr (w\<lparr>step := step w - 1\<rparr>))"

definition next_onClick :: "wizard \<Rightarrow> wizard option" where
  "next_onClick w = (if step w < 3 then Some (w\<lparr>step := step w + 1\<rparr>) else None)"

datatype nav = Next | Back

text \<open>
  A session of the wizard under clicks on the two buttons: \<open>None\<close> once it has been
  closed; a click on a button that is not there leaves the state as it is.
\<close>

fun navigate :: "wizard option \<Rightarrow> nav \<Rightarrow> wizard option" where
  "navigate None _ = None"
| "navigate (Some w) Next = (case next_onClick w of None \<Rightarrow> Some w | Some w' \<Rightarrow> Some w')"
| "navigate (Some w) Back = (case back_onClick w of Inl OnClose \<Rightarrow> None | Inr w' \<Rightarrow> Some w')"

subsection \<open>\<^verbatim>\<open>parseFloat\<close> and \<^verbatim>\<open>JSON.stringify\<close> of a number\<close>

text \<open>
  \<^verbatim>\<open>parseFloat\<close> skips leading white space and reads the longest prefix that is a decimal
  literal (sign, \<^verbatim>\<open>Infinity\<close> or digits with an optional fraction and exponent); with no
  such prefix the result is \<^verbatim>\<open>NaN\<close>. The result is the double nearest to the value of the
  literal, ties going to the even significand; a value that rounds to \<open>2 ^ 1024\<close> or more is an
  infinity. (For a literal of more than 20 significant digits the language leaves an engine
  the choice of a neighbouring double; the model rounds the exact value.) Strings are
  ASCII, and the zero that \<^verbatim>\<open>-0\<close> gives is not told from \<^verbatim>\<open>0\<close> (\<^verbatim>\<open>JSON.stringify\<close>
  writes both as \<^verbatim>\<open>0\<close>).
\<close>

datatype js_number = Finite rat | NaN | PosInfinity | NegInfinity

definition StrWhiteSpaceChar :: "char \<Rightarrow> bool" where
  "StrWhiteSpaceChar c =
     (c \<in> set [CHR '' '', CHR 0x09, CHR 0x0A, CHR 0x0B, CHR 0x0C, CHR 0x0D])"

definition is_digit :: "char \<Rightarrow> bool" where
  "is_digit c = (c \<in> set ''0123456789'')"

definition digit_val :: "char \<Rightarrow> nat" where
  "digit_val c = of_char c - of_char CHR ''0''"

definition digits_val :: "string \<Rightarrow> nat" where
  "digits_val ds = foldl (\<lambda>a c. 10 * a + digit_val c) 0 ds"

definition split_sign :: "string \<Rightarrow> bool \<times> string" where
  "split_sign s =
     (case s of
        [] \<Rightarrow> (False, s)
      | c # r \<Rightarrow> if c = CHR ''-'' then (True, r) else if c = CHR ''+'' then (False, r)
                 else (False, s))"

definition exponent_part :: "string \<Rightarrow> int" where
  "exponent_part s =
     (case s of
        [] \<Rightarrow> 0
      | c # r \<Rightarrow>
          if c = CHR ''e'' \<or> c = CHR ''E''
          then (let (neg, r') = split_sign r; ds = takeWhile is_digit r'
                in if ds = [] then 0
                   else if neg then - int (digits_val ds) else int (digits_val ds))
          else 0)"

definition pow10 :: "int \<Rightarrow> rat" where
  "pow10 e = (if 0 \<le> e then 10 ^ nat e else 1 / 10 ^ nat (- e))"

text \<open>
  Rounding to a double. \<open>binary_exponent x\<close> is the \<open>e\<close> with \<open>2 ^ e \<le> x < 2 ^ (e + 1)\<close>
  for a positive \<open>x\<close>; a double of this magnitude is a multiple of \<open>2 ^ (e - 52)\<close>, and of
  \<open>2 ^ (- 1074)\<close> below the normal range.
\<close>

fun bit_length :: "nat \<Rightarrow> nat" where
  "bit_length n = (if n = 0 then 0 else Suc (bit_length (n div 2)))"

declare bit_length.simps [simp del]

definition pow2 :: "int \<Rightarrow> rat" where
  "pow2 e = (if 0 \<le> e then 2 ^ nat e else 1 / 2 ^ nat (- e))"

definition binary_exponent :: "rat \<Rightarrow> int" where
  "binary_exponent x =
     (if 1 \<le> x then int (bit_length (nat \<lfloor>x\<rfloor>)) - 1
      else (let b = int (bit_length (nat \<lfloor>1 / x\<rfloor>))
            in if pow2 (1 - b) \<le> x then 1 - b else - b))"

definition round_half_even :: "rat \<Rightarrow> int" where
  "round_half_even x =
     (let f = \<lfloor>x\<rfloor>; d = x - of_int f
      in if d < 1 / 2 then f else if 1 / 2 < d then f + 1 else if even f then f else f + 1)"

definition round_magnitude :: "rat \<Rightarrow> rat option" where
  "round_magnitude x =
     (let e = max (binary_exponent x) (- 1022);
          ulp = pow2 (e - 52);
          r = of_int (round_half_even (x / ulp)) * ulp
      in if pow2 1024 \<le> r then None else Some r)"

definition to_double :: "rat \<Rightarrow> js_number" where
  "to_double x =
     (if x = 0 then Finite 0
      else (case round_magnitude \<bar>x\<bar> of
              None \<Rightarrow> if x < 0 then NegInfinity else PosInfinity
            | Some r \<Rightarrow> Finite (if x < 0 then - r else r)))"

definition parseFloat :: "string \<Rightarrow> js_number" where
  "parseFloat inputString =
     (let trimmed = dropWhile StrWhiteSpaceChar inputString;
          (neg, u) = split_sign trimmed
      in if take 8 u = ''Infinity'' then (if neg then NegInfinity else PosInfinity)
         else
           (let ip = takeWhile is_digit u;
                r1 = dropWhile is_digit u;
                (fp, r2) =
                  (case r1 of
                     [] \<Rightarrow> ([], r1)
                   | c # r \<Rightarrow> if c = CHR ''.''
                              then (takeWhile is_digit r, dropWhile is_digit r)
                              else ([], r1))
            in if ip = [] \<and> fp = [] then NaN
               else
                 (let m = of_nat (digits_val ip) + of_nat (digits_val fp) / 10 ^ length fp;
                      v = m * pow10 (exponent_part r2)
                  in to_double (if neg then - v else v))))"

text \<open>\<^verbatim>\<open>JSON.stringify\<close> writes a finite number as it is and every other one as \<^verbatim>\<open>null\<close>.\<close>

definition stringify_number :: "js_number \<Rightarrow> number option" where
  "stringify_number x = (case x of Finite v \<Rightarrow> Some v | _ \<Rightarrow> None)"

subsection \<open>Requests and responses\<close>

text \<open>
  The body of the suggestion request, one field per key of the object literal:
  \<^verbatim>\<open>amount\<close>, \<^verbatim>\<open>horizon\<close>, \<^verbatim>\<open>target_sri\<close>, \<^verbatim>\<open>sri_tolerance\<close>. \<open>body_amount = None\<close> is
  \<^verbatim>\<open>null\<close>; \<open>body_target_sri = None\<close> is the key left out, which is what
  \<^verbatim>\<open>JSON.stringify\<close> does with \<^verbatim>\<open>undefined\<close>, the value of \<^verbatim>\<open>targetSri[0]\<close> on an empty array.
\<close>

record suggest_body =
  body_amount :: "number option"
  body_horizon :: string
  body_target_sri :: "int option"
  body_sri_tolerance :: int

text \<open>A request is its method and its path under \<^verbatim>\<open>API_URL\<close>.\<close>

datatype request = GET string | POST string suggest_body

text \<open>
  What \<^verbatim>\<open>await fetch(...)\<close> gives: the promise is rejected (\<open>NetworkError\<close>), or there is
  a response with its \<^verbatim>\<open>ok\<close> flag and the outcome of \<^verbatim>\<open>await response.json()\<close> (\<open>None\<close>
  when that throws).
\<close>

datatype 'a fetch_result = NetworkError | Response bool "'a option"

subsection \<open>\<^verbatim>\<open>handleSubmit\<close>\<close>

text \<open>
  The function up to its \<^verbatim>\<open>await fetch\<close> (the state it leaves and the request it sends),
  and from the answer on (the final state and the argument of \<^verbatim>\<open>onComplete\<close> when it is
  called).
\<close>

definition handleSubmit_request :: "wizard \<Rightarrow> request" where
  "handleSubmit_request w =
     POST ''/api/portfolio/suggest''
       \<lparr>body_amount = stringify_number (parseFloat (amount w)),
        body_horizon = horizon w,
        body_target_sri = (case targetSri w of [] \<Rightarrow> None | x # _ \<Rightarrow> Some x),
        body_sri_tolerance = 1\<rparr>"

definition handleSubmit_begin :: "wizard \<Rightarrow> wizard \<times> request" where
  "handleSubmit_begin w = (w\<lparr>loading := True, error := None\<rparr>, handleSubmit_request w)"

definition handleSubmit_end ::
  "wizard \<Rightarrow> PortfolioSuggestion fetch_result \<Rightarrow> wizard \<times> PortfolioSuggestion option" where
  "handleSubmit_end w res =
     (case res of
        Response True (Some data) \<Rightarrow> (w\<lparr>loading := False\<rparr>, Some data)
      | _ \<Rightarrow> (w\<lparr>error := Some ''Erreur lors de la generation du portefeuille'',
                loading := False\<rparr>, None))"

record submission =
  sent :: "request list"
  final :: wizard
  onComplete :: "PortfolioSuggestion option"

definition handleSubmit ::
  "(request \<Rightarrow> PortfolioSuggestion fetch_result) \<Rightarrow> wizard \<Rightarrow> submission" where
  "handleSubmit net w =
     (let (w1, req) = handleSubmit_begin w;
          (w2, completed) = handleSubmit_end w1 (net req)
      in \<lparr>sent = [req], final = w2, onComplete = completed\<rparr>)"

text \<open>
  The submit button stands in place of \<^verbatim>\<open>Suivant\<close> when \<^verbatim>\<open>step < 3\<close> fails, and is disabled
  while \<^verbatim>\<open>loading\<close>.
\<close>

definition submit_onClick ::
  "(request \<Rightarrow> PortfolioSuggestion fetch_result) \<Rightarrow> wizard \<Rightarrow> submission option" where
  "submit_onClick net w = (if step w < 3 \<or> loading w then None else Some (handleSubmit net w))"

section \<open>\<^verbatim>\<open>App\<close>\<close>

record App =
  topFunds :: "Fund list"
  stats :: "Stats option"
  app_loading :: bool
  mobileMenuOpen :: bool
  wizardOpen :: bool
  portfolio :: "PortfolioSuggestion option"
  activeTab :: string
  rankedFunds :: "Fund list"
  viewMode :: ViewMode

definition initial_App :: App where
  "initial_App =
     \<lparr>topFunds = [], stats = None, app_loading = True, mobileMenuOpen = False,
      wizardOpen = False, portfolio = None, activeTab = ''top-week'', rankedFunds = [],
      viewMode = simple\<rparr>"

definition handlePortfolioComplete :: "PortfolioSuggestion \<Rightarrow> App \<Rightarrow> App" where
  "handlePortfolioComplete newPortfolio a = a\<lparr>portfolio := Some newPortfolio, wizardOpen := False\<rparr>"

subsection \<open>\<^verbatim>\<open>fetchData\<close>\<close>

text \<open>
  The two requests of \<^verbatim>\<open>Promise.all\<close>, and the function from the point where the two
  fetches have settled. \<^verbatim>\<open>Promise.all\<close> is rejected as soon as one of its promises is; the
  \<^verbatim>\<open>catch\<close> block only logs, so a throw ends the \<^verbatim>\<open>try\<close> block with the state as it is at
  that point, and \<^verbatim>\<open>finally\<close> clears \<^verbatim>\<open>loading\<close>.
\<close>

definition fetchData_requests :: "request list" where
  "fetchData_requests = [GET ''/api/top-week?limit=20'', GET ''/api/stats'']"

definition fetchData_end :: "Fund list fetch_result \<Rightarrow> Stats fetch_result \<Rightarrow> App \<Rightarrow> App" where
  "fetchData_end topRes statsRes a =
     (case (topRes, statsRes) of
        (Response top_ok topData, Response stats_ok statsData) \<Rightarrow>
          (case (if top_ok then map_option (\<lambda>d. a\<lparr>topFunds := d\<rparr>) topData else Some a) of
             None \<Rightarrow> a\<lparr>app_loading := False\<rparr>
           | Some a1 \<Rightarrow>
               if stats_ok
               then (case statsData of
                       None \<Rightarrow> a1\<lparr>app_loading := False\<rparr>
                     | Some d \<Rightarrow> a1\<lparr>stats := Some d, app_loading := False\<rparr>)
               else a1\<lparr>app_loading := False\<rparr>)
      | _ \<Rightarrow> a\<lparr>app_loading := False\<rparr>)"

subsection \<open>\<^verbatim>\<open>fetchRankedFunds\<close>\<close>

definition fetchRankedFunds_request :: request where
  "fetchRankedFunds_request = GET ''/api/ranked?limit=50''"

definition fetchRankedFunds_end :: "Fund list fetch_result \<Rightarrow> App \<Rightarrow> App" where
  "fetchRankedFunds_end res a =
     (case res of Response True (Some data) \<Rightarrow> a\<lparr>rankedFunds := data\<rparr> | _ \<Rightarrow> a)"

subsection \<open>The component under React\<close>

text \<open>
  The state of the mounted component with what it has sent: every request issued so far,
  oldest first, and the requests still awaiting their answer.
\<close>

record system =
  app :: App
  issued :: "request list"
  inflight :: "request list"

definition issue :: "request list \<Rightarrow> system \<Rightarrow> system" where
  "issue rs s = s\<lparr>issued := issued s @ rs, inflight := inflight s @ rs\<rparr>"

text \<open>
  The second effect: its body, and its dependency array
  \<^verbatim>\<open>[activeTab, rankedFunds.length]\<close>. After a render React runs the effect again only when
  a dependency differs from its value at the previous render.
\<close>

definition ranked_effect :: "system \<Rightarrow> system" where
  "ranked_effect s =
     (if activeTab (app s) = ''ranked'' \<and> length (rankedFunds (app s)) = 0
      then issue [fetchRankedFunds_request] s else s)"

definition ranked_deps :: "App \<Rightarrow> string \<times> nat" where
  "ranked_deps a = (activeTab a, length (rankedFunds a))"

definition rerender :: "App \<Rightarrow> system \<Rightarrow> system" where
  "rerender a' s =
     (let prev = app s; s' = s\<lparr>app := a'\<rparr>
      in if ranked_deps a' \<noteq> ranked_deps prev then ranked_effect s' else s')"


datatype event =
    SetActiveTab string  \<comment> \<open>\<^verbatim>\<open>onValueChange\<close> of the tabs\<close>
  | SetViewMode ViewMode
  | InitialSettled "Fund list fetch_result" "Stats fetch_result"
  | RankedSettled "Fund list fetch_result"

text \<open>An answer can only come to a request that is awaiting one.\<close>

fun react :: "system \<Rightarrow> event \<Rightarrow> system" where
  "react s (SetActiveTab t) = rerender ((app s)\<lparr>activeTab := t\<rparr>) s"
| "react s (SetViewMode m) = rerender ((app s)\<lparr>viewMode := m\<rparr>) s"
| "react s (InitialSettled topRes statsRes) =
     (if list_all (\<lambda>r. r \<in> set (inflight s)) fetchData_requests
      then rerender (fetchData_end topRes statsRes (app s))
             (s\<lparr>inflight := foldr remove1 fetchData_requests (inflight s)\<rparr>)
      else s)"
| "react s (RankedSettled res) =
     (if fetchRankedFunds_request \<in> set (inflight s)
      then rerender (fetchRankedFunds_end res (app s))
             (s\<lparr>inflight := remove1 fetchRankedFunds_request (inflight s)\<rparr>)
      else s)"

definition run :: "system \<Rightarrow> event list \<Rightarrow> system" where
  "run s es = foldl react s es"



section \<open>Values used in the examples\<close>

definition example_metrics :: FundMetrics where
  "example_metrics =
     \<lparr>perf_1w = None, perf_1m = None, perf_3m = None, perf_1y = None, perf_3y = None,
      vol_60d = Some 12, sharpe_ratio = None, sortino_ratio = None, max_drawdown = None\<rparr>"

definition example_fund :: Fund where
  "example_fund =
     \<lparr>isin = ''FR0000000001'', name = ''Fonds A'', management_company = None, sri = 4,
      asset_class = ''actions'', description = None, available_platforms = [],
      is_standard_isin = True, label = None, metrics = None, fundamental_score = Some 0,
      top_week_score = None, priority = None, confidence = Some 0, reasoning = None,
      quality_score = None, valuation_score = None, stability_score = None,
      consensus_level = None\<rparr>"

definition example_portfolio :: PortfolioSuggestion where
  "example_portfolio =
     \<lparr>allocations = [\<lparr>fund = example_fund, allocation_percent = 100, amount_eur = 50000\<rparr>],
      total_amount = 50000, average_sri = 4, num_funds = 1,
      asset_class_distribution = [(''actions'', 100)], explanation = ''Un seul fonds'',
      average_confidence = None, consensus_summary = None\<rparr>"

definition example_stats :: Stats where
  "example_stats =
     \<lparr>total_funds = 1, standard_isin_funds = 1, special_funds = 0,
      sri_distribution = [(''4'', 1)], stats_asset_class_distribution = [(''actions'', 1)]\<rparr>"

section \<open>Three rules in the specification's wording\<close>


text \<open>
  The performance fields the specification selects for a view mode, and its rule: the
  marker when the metrics are absent or every selected field is null, the selected
  fields otherwise.
\<close>

definition spec_selected_fields :: "ViewMode \<Rightarrow> FundMetrics \<Rightarrow> (string \<times> number option) list" where
  "spec_selected_fields vm m =
     (case vm of
        simple \<Rightarrow> [(''1M'', perf_1m m), (''1A'', perf_1y m)]
      | advanced \<Rightarrow> [(''1S'', perf_1w m), (''1M'', perf_1m m), (''1A'', perf_1y m),
                     (''3A'', perf_3y m), (''Vol'', vol_60d m)])"

definition spec_PerformanceStrip :: "ViewMode \<Rightarrow> FundMetrics option \<Rightarrow> performance" where
  "spec_PerformanceStrip vm metrics' =
     (case metrics' of
        None \<Rightarrow> PerformanceUnavailable
      | Some m \<Rightarrow>
          if list_all (\<lambda>item. snd item = None) (spec_selected_fields vm m)
          then PerformanceUnavailable
          else PerformanceSlots (spec_selected_fields vm m))"

text \<open>
  The step from the first screen as the specification has it: the amount is checked to
  be a non-empty numeric string, and nothing else is.
\<close>

definition spec_amount_accepted :: "string \<Rightarrow> bool" where
  "spec_amount_accepted s = (s \<noteq> [] \<and> parseFloat s \<noteq> NaN)"

definition spec_next_from_Step1 :: "wizard \<Rightarrow> wizard option" where
  "spec_next_from_Step1 w =
     (if spec_amount_accepted (amount w) then Some (w\<lparr>step := 2\<rparr>) else None)"


section \<open>The fund card\<close>

text \<open>
  C7. The highlight tier of a fund card is a function of the rank alone: rank 1 gives
  gold, rank 2 silver, rank 3 bronze and every other rank (an absent one too) none,
  whatever the fund, its scores, the view mode and the expansion state are.
\<close>

theorem FundCard_tier_of_rank:
  "card_tier (FundCard vm ex f (Some 1)) = Gold
   \<and> card_tier (FundCard vm ex f (Some 2)) = Silver
   \<and> card_tier (FundCard vm ex f (Some 3)) = Bronze
   \<and> card_tier (FundCard vm ex f (Some 4)) = NoTier
   \<and> card_tier (FundCard vm ex f rank) =
       (if rank = Some 1 then Gold else if rank = Some 2 then Silver
        else if rank = Some 3 then Bronze else NoTier)
   \<and> card_tier (FundCard vm ex f rank) = card_tier (FundCard vm' ex' f' rank)"
  by (simp add: FundCard_def isTopRank_def topRankStyles_def split: option.split)

section \<open>The profile of three bars\<close>







section \<open>The performance strip\<close>

lemma PerformanceStrip_simple: "PerformanceStrip simple mo = spec_PerformanceStrip simple mo"
proof (cases mo)
  case None
  then show ?thesis by (simp add: PerformanceStrip_def spec_PerformanceStrip_def)
next
  case (Some m)
  then show ?thesis
    by (simp add: PerformanceStrip_def spec_PerformanceStrip_def spec_selected_fields_def)
qed

lemma PerformanceStrip_advanced:
  "PerformanceStrip advanced (Some m) =
     (if perf_1w m = None \<and> perf_1m m = None \<and> perf_1y m = None \<and> perf_3y m = None
      then PerformanceUnavailable
      else PerformanceSlots
             [(''1S'', perf_1w m), (''1M'', perf_1m m), (''1A'', perf_1y m),
              (''3A'', perf_3y m), (''Vol'', vol_60d m)])"
  by (simp add: PerformanceStrip_def)

lemma spec_PerformanceStrip_advanced:
  "spec_PerformanceStrip advanced (Some m) =
     (if perf_1w m = None \<and> perf_1m m = None \<and> perf_1y m = None \<and> perf_3y m = None
         \<and> vol_60d m = None
      then PerformanceUnavailable
      else PerformanceSlots
             [(''1S'', perf_1w m), (''1M'', perf_1m m), (''1A'', perf_1y m),
              (''3A'', perf_3y m), (''Vol'', vol_60d m)])"
  by (simp add: spec_PerformanceStrip_def spec_selected_fields_def)

text \<open>
  C5, as the code has it. In simple mode the strip is the one the specification
  describes: the fields 1-month and 1-year, and the marker \<^verbatim>\<open>Performances indisponibles\<close>
  when the metrics are absent or both are null. In advanced mode the fields are 1-week,
  1-month, 1-year, 3-year and the volatility, and the marker is emitted when the metrics
  are absent or the four performances are null: the volatility is not consulted. So the
  advanced strip is the specified one unless the four performances are null and the
  volatility is known.
\<close>

theorem PerformanceStrip_fields:
  "PerformanceStrip simple mo = spec_PerformanceStrip simple mo
   \<and> PerformanceStrip vm None = PerformanceUnavailable
   \<and> PerformanceStrip advanced (Some m) =
       (if perf_1w m = None \<and> perf_1m m = None \<and> perf_1y m = None \<and> perf_3y m = None
        then PerformanceUnavailable
        else PerformanceSlots
               [(''1S'', perf_1w m), (''1M'', perf_1m m), (''1A'', perf_1y m),
                (''3A'', perf_3y m), (''Vol'', vol_60d m)])
   \<and> PerformanceStrip advanced (Some m) =
       (if perf_1w m = None \<and> perf_1m m = None \<and> perf_1y m = None \<and> perf_3y m = None
           \<and> vol_60d m \<noteq> None
        then PerformanceUnavailable
        else spec_PerformanceStrip advanced (Some m))"
proof (intro conjI)
  show "PerformanceStrip simple mo = spec_PerformanceStrip simple mo"
    by (rule PerformanceStrip_simple)
  show "PerformanceStrip vm None = PerformanceUnavailable"
    by (simp add: PerformanceStrip_def)
  show "PerformanceStrip advanced (Some m) =
       (if perf_1w m = None \<and> perf_1m m = None \<and> perf_1y m = None \<and> perf_3y m = None
        then PerformanceUnavailable
        else PerformanceSlots
               [(''1S'', perf_1w m), (''1M'', perf_1m m), (''1A'', perf_1y m),
                (''3A'', perf_3y m), (''Vol'', vol_60d m)])"
    by (rule PerformanceStrip_advanced)
  show "PerformanceStrip advanced (Some m) =
       (if perf_1w m = None \<and> perf_1m m = None \<and> perf_1y m = None \<and> perf_3y m = None
           \<and> vol_60d m \<noteq> None
        then PerformanceUnavailable
        else spec_PerformanceStrip advanced (Some m))"
    unfolding PerformanceStrip_advanced spec_PerformanceStrip_advanced by simp
qed

text \<open>
  The claim as stated fails in advanced mode on metrics whose only known field is the
  volatility: a selected field is known, and the marker is emitted all the same.
\<close>

theorem PerformanceStrip_counterexample:
  "PerformanceStrip advanced (Some example_metrics) = PerformanceUnavailable
   \<and> spec_PerformanceStrip advanced (Some example_metrics) =
       PerformanceSlots
         [(''1S'', None), (''1M'', None), (''1A'', None), (''3A'', None), (''Vol'', Some 12)]"
  unfolding PerformanceStrip_advanced spec_PerformanceStrip_advanced
  by (simp add: example_metrics_def)

section \<open>The wizard\<close>



lemma navigate_step_range:
  assumes "case s of None \<Rightarrow> True | Some w \<Rightarrow> 1 \<le> step w \<and> step w \<le> 3"
  shows "case navigate s e of None \<Rightarrow> True | Some w \<Rightarrow> 1 \<le> step w \<and> step w \<le> 3"
proof (cases s)
  case None
  then show ?thesis by simp
next
  case (Some w)
  with assms have range: "1 \<le> step w" "step w \<le> 3" by simp_all
  show ?thesis
  proof (cases e)
    case Next
    with Some range show ?thesis by (simp add: next_onClick_def)
  next
    case Back
    with Some range show ?thesis by (simp add: back_onClick_def)
  qed
qed

lemma foldl_navigate_step_range:
  assumes "case s of None \<Rightarrow> True | Some w \<Rightarrow> 1 \<le> step w \<and> step w \<le> 3"
  shows "case foldl navigate s es of None \<Rightarrow> True | Some w \<Rightarrow> 1 \<le> step w \<and> step w \<le> 3"
  using assms
proof (induction es arbitrary: s)
  case Nil
  then show ?case by simp
next
  case (Cons e es)
  from Cons.prems have "case navigate s e of None \<Rightarrow> True | Some w \<Rightarrow> 1 \<le> step w \<and> step w \<le> 3"
    by (rule navigate_step_range)
  then show ?case using Cons.IH by simp
qed

text \<open>
  C8, as the code has it. On the first step the left button calls \<^verbatim>\<open>onClose\<close>. On the third
  step there is no \<^verbatim>\<open>Suivant\<close> button, and under any sequence of clicks on the two buttons
  the step of an open wizard stays between 1 and 3. From the first step \<^verbatim>\<open>Suivant\<close> goes to
  the second step whatever the amount is: the amount is not validated at all.
\<close>

theorem wizard_navigation:
  "back_onClick (w\<lparr>step := 1\<rparr>) = Inl OnClose
   \<and> next_onClick (w\<lparr>step := 3\<rparr>) = None
   \<and> next_onClick (w\<lparr>step := 1, amount := a\<rparr>) = Some (w\<lparr>step := 2, amount := a\<rparr>)
   \<and> (foldl navigate (Some initial_wizard) es = Some w' \<longrightarrow> 1 \<le> step w' \<and> step w' \<le> 3)"
proof (intro conjI impI)
  show "back_onClick (w\<lparr>step := 1\<rparr>) = Inl OnClose"
    by (simp add: back_onClick_def)
  show "next_onClick (w\<lparr>step := 3\<rparr>) = None"
    by (simp add: next_onClick_def)
  show "next_onClick (w\<lparr>step := 1, amount := a\<rparr>) = Some (w\<lparr>step := 2, amount := a\<rparr>)"
    by (simp add: next_onClick_def)
next
  assume run: "foldl navigate (Some initial_wizard) es = Some w'"
  have "case Some initial_wizard of None \<Rightarrow> True | Some w \<Rightarrow> 1 \<le> step w \<and> step w \<le> 3"
    by (simp add: initial_wizard_def)
  then have "case foldl navigate (Some initial_wizard) es of
               None \<Rightarrow> True | Some w \<Rightarrow> 1 \<le> step w \<and> step w \<le> 3"
    by (rule foldl_navigate_step_range)
  with run show "1 \<le> step w'" and "step w' \<le> 3" by simp_all
qed

theorem wizard_navigation_witness:
  "foldl navigate (Some initial_wizard) [Next, Next, Next, Back] = Some (initial_wizard\<lparr>step := 2\<rparr>)
   \<and> 1 \<le> step (initial_wizard\<lparr>step := 2\<rparr>) \<and> step (initial_wizard\<lparr>step := 2\<rparr>) \<le> 3"
proof -
  have run: "foldl navigate (Some initial_wizard) [Next, Next, Next, Back] =
             Some (initial_wizard\<lparr>step := 2\<rparr>)"
    by (simp add: next_onClick_def back_onClick_def initial_wizard_def)
  with wizard_navigation [of _ _ "[Next, Next, Next, Back]" "initial_wizard\<lparr>step := 2\<rparr>"]
  show ?thesis by blast
qed

text \<open>
  The claim as stated has the amount checked to be a non-empty numeric string before the
  second step is reached; the code reaches it with the empty amount.
\<close>

theorem wizard_navigation_counterexample:
  "\<not> spec_amount_accepted (amount (input_onChange [] initial_wizard))
   \<and> spec_next_from_Step1 (input_onChange [] initial_wizard) = None
   \<and> next_onClick (input_onChange [] initial_wizard) =
       Some ((input_onChange [] initial_wizard)\<lparr>step := 2\<rparr>)"
  by (simp add: spec_amount_accepted_def spec_next_from_Step1_def next_onClick_def
      input_onChange_def initial_wizard_def)

section \<open>The submission\<close>

lemma to_double_50000: "to_double 50000 = Finite 50000"
proof -
  have bl: "bit_length 50000 = 16"
    by (simp add: bit_length.simps)
  have be: "binary_exponent 50000 = 15"
    by (simp add: binary_exponent_def bl)
  have ulp: "pow2 (max 15 (- 1022) - 52) = 1 / 137438953472"
    by (simp add: pow2_def)
  have q: "round_half_even (50000 / (1 / 137438953472)) = 6871947673600000"
    by (simp add: round_half_even_def)
  have r: "rat_of_int 6871947673600000 * (1 / 137438953472) = 50000"
    by simp
  have top: "(pow2 1024 \<le> 50000) = False"
    by (simp add: pow2_def)
  have "round_magnitude 50000 = Some 50000"
    unfolding round_magnitude_def be Let_def ulp q r top by simp
  then show ?thesis
    by (simp add: to_double_def)
qed

lemma parseFloat_50000: "parseFloat ''50000'' = Finite 50000"
proof -
  have trim: "dropWhile StrWhiteSpaceChar ''50000'' = ''50000''"
    by (simp add: StrWhiteSpaceChar_def)
  have sign: "split_sign ''50000'' = (False, ''50000'')"
    by (simp add: split_sign_def)
  have inf: "(take 8 ''50000'' = ''Infinity'') = False"
    by simp
  have ip: "takeWhile is_digit ''50000'' = ''50000''"
    by (simp add: is_digit_def)
  have r1: "dropWhile is_digit ''50000'' = []"
    by (simp add: is_digit_def)
  have val: "digits_val ''50000'' = 50000" "digits_val [] = 0"
    by (simp_all add: digits_val_def digit_val_def)
  have ex: "pow10 (exponent_part []) = 1"
    by (simp add: exponent_part_def pow10_def)
  show ?thesis
    unfolding parseFloat_def trim Let_def sign prod.case inf if_False ip r1 list.case val ex
    by (simp add: to_double_50000)
qed

lemma handleSubmit_request_scenario:
  "handleSubmit_request (w\<lparr>amount := ''50000'', horizon := ''long'', targetSri := [6]\<rparr>) =
     POST ''/api/portfolio/suggest''
       \<lparr>body_amount = Some 50000, body_horizon = ''long'', body_target_sri = Some 6,
        body_sri_tolerance = 1\<rparr>"
  by (simp add: handleSubmit_request_def parseFloat_50000 stringify_number_def)

lemma handleSubmit_request_error [simp]:
  "handleSubmit_request (w\<lparr>error := e\<rparr>) = handleSubmit_request w"
  "handleSubmit_request (w\<lparr>loading := l\<rparr>) = handleSubmit_request w"
  "handleSubmit_request (w\<lparr>step := n\<rparr>) = handleSubmit_request w"
  by (simp_all add: handleSubmit_request_def)

lemma sent_handleSubmit: "sent (handleSubmit net w) = [handleSubmit_request w]"
  by (simp add: handleSubmit_def handleSubmit_begin_def split: prod.split)

lemma handleSubmit_success:
  assumes "net (handleSubmit_request w) = Response True (Some data)"
  shows "onComplete (handleSubmit net w) = Some data"
    and "final (handleSubmit net w) = w\<lparr>loading := False, error := None\<rparr>"
  using assms by (simp_all add: handleSubmit_def handleSubmit_begin_def handleSubmit_end_def)

lemma handleSubmit_failure:
  assumes "net (handleSubmit_request w) = NetworkError
           \<or> net (handleSubmit_request w) = Response False body
           \<or> net (handleSubmit_request w) = Response True None"
  shows "onComplete (handleSubmit net w) = None"
    and "final (handleSubmit net w) =
           w\<lparr>loading := False, error := Some ''Erreur lors de la generation du portefeuille''\<rparr>"
  using assms by (auto simp: handleSubmit_def handleSubmit_begin_def handleSubmit_end_def)

text \<open>
  C1. On the third step, with the amount \<^verbatim>\<open>50000\<close>, the horizon \<^verbatim>\<open>long\<close> and the target
  risk 6, a click on the submit button sends one request, whose body is
  \<^verbatim>\<open>{amount: 50000, horizon: "long", target_sri: 6, sri_tolerance: 1}\<close>. On a successful
  answer \<^verbatim>\<open>onComplete\<close> receives the suggestion and no error is set. On a network failure,
  on a non-success status and on an unreadable body, \<^verbatim>\<open>onComplete\<close> is not called and the
  state is the one before the click but for the error message: step, amount, horizon,
  target risk and preset are unchanged, the button is enabled again, and a second click
  sends one request again, the same one.
\<close>

theorem submit_scenario:
  "let W = w\<lparr>step := 3, amount := ''50000'', horizon := ''long'', targetSri := [6],
              loading := False\<rparr>;
       req = POST ''/api/portfolio/suggest''
               \<lparr>body_amount = Some 50000, body_horizon = ''long'', body_target_sri = Some 6,
                body_sri_tolerance = 1\<rparr>;
       failed = W\<lparr>error := Some ''Erreur lors de la generation du portefeuille''\<rparr>
   in submit_onClick net W = Some (handleSubmit net W)
      \<and> sent (handleSubmit net W) = [req]
      \<and> (net req = Response True (Some data) \<longrightarrow>
            onComplete (handleSubmit net W) = Some data
            \<and> final (handleSubmit net W) = W\<lparr>error := None\<rparr>
            \<and> portfolio (handlePortfolioComplete data a) = Some data)
      \<and> (net req = NetworkError \<or> net req = Response False body \<or> net req = Response True None
            \<longrightarrow>
            onComplete (handleSubmit net W) = None
            \<and> final (handleSubmit net W) = failed
            \<and> step failed = 3 \<and> amount failed = ''50000'' \<and> horizon failed = ''long''
            \<and> targetSri failed = [6] \<and> selectedPreset failed = selectedPreset w
            \<and> submit_onClick net' failed = Some (handleSubmit net' failed)
            \<and> sent (handleSubmit net' failed) = [req])"
proof -
  define W where
    "W = w\<lparr>step := 3, amount := ''50000'', horizon := ''long'', targetSri := [6],
           loading := False\<rparr>"
  define req where
    "req = POST ''/api/portfolio/suggest''
             \<lparr>body_amount = Some 50000, body_horizon = ''long'', body_target_sri = Some 6,
              body_sri_tolerance = 1\<rparr>"
  define failed where
    "failed = W\<lparr>error := Some ''Erreur lors de la generation du portefeuille''\<rparr>"
  have req: "handleSubmit_request W = req"
    unfolding W_def req_def using handleSubmit_request_scenario [of "w\<lparr>step := 3\<rparr>"]
    by simp
  have req': "handleSubmit_request failed = req"
    unfolding failed_def using req by simp
  have click: "submit_onClick net W = Some (handleSubmit net W)"
    by (simp add: submit_onClick_def W_def)
  have click': "submit_onClick net' failed = Some (handleSubmit net' failed)"
    by (simp add: submit_onClick_def failed_def W_def)
  have fields: "step failed = 3" "amount failed = ''50000''" "horizon failed = ''long''"
    "targetSri failed = [6]" "selectedPreset failed = selectedPreset w"
    by (simp_all add: failed_def W_def)
  have success: "onComplete (handleSubmit net W) = Some data
      \<and> final (handleSubmit net W) = W\<lparr>error := None\<rparr>
      \<and> portfolio (handlePortfolioComplete data a) = Some data"
    if "net req = Response True (Some data)"
  proof -
    from that req have "net (handleSubmit_request W) = Response True (Some data)" by simp
    with handleSubmit_success [of net W data] show ?thesis
      by (simp add: W_def handlePortfolioComplete_def)
  qed
  have failure: "onComplete (handleSubmit net W) = None \<and> final (handleSubmit net W) = failed"
    if "net req = NetworkError \<or> net req = Response False body \<or> net req = Response True None"
  proof -
    from that req have "net (handleSubmit_request W) = NetworkError
        \<or> net (handleSubmit_request W) = Response False body
        \<or> net (handleSubmit_request W) = Response True None"
      by simp
    with handleSubmit_failure [of net W body] show ?thesis
      by (simp add: failed_def W_def)
  qed
  have "submit_onClick net W = Some (handleSubmit net W)
      \<and> sent (handleSubmit net W) = [req]
      \<and> (net req = Response True (Some data) \<longrightarrow>
            onComplete (handleSubmit net W) = Some data
            \<and> final (handleSubmit net W) = W\<lparr>error := None\<rparr>
            \<and> portfolio (handlePortfolioComplete data a) = Some data)
      \<and> (net req = NetworkError \<or> net req = Response False body \<or> net req = Response True None
            \<longrightarrow>
            onComplete (handleSubmit net W) = None
            \<and> final (handleSubmit net W) = failed
            \<and> step failed = 3 \<and> amount failed = ''50000'' \<and> horizon failed = ''long''
            \<and> targetSri failed = [6] \<and> selectedPreset failed = selectedPreset w
            \<and> submit_onClick net' failed = Some (handleSubmit net' failed)
            \<and> sent (handleSubmit net' failed) = [req])"
    using click click' fields success failure req req' by (simp add: sent_handleSubmit)
  then show ?thesis
    unfolding Let_def W_def req_def failed_def .
qed

theorem submit_scenario_witness:
  "onComplete
     (handleSubmit (\<lambda>r. Response True (Some example_portfolio))
        (initial_wizard\<lparr>step := 3, amount := ''50000'', horizon := ''long'', targetSri := [6],
                         loading := False\<rparr>)) = Some example_portfolio
   \<and> final
       (handleSubmit (\<lambda>r. Response False None)
          (initial_wizard\<lparr>step := 3, amount := ''50000'', horizon := ''long'',
                           targetSri := [6], loading := False\<rparr>)) =
       initial_wizard\<lparr>step := 3, amount := ''50000'', horizon := ''long'', targetSri := [6],
                       loading := False,
                       error := Some ''Erreur lors de la generation du portefeuille''\<rparr>"
proof (rule conjI)
  show "onComplete
     (handleSubmit (\<lambda>r. Response True (Some example_portfolio))
        (initial_wizard\<lparr>step := 3, amount := ''50000'', horizon := ''long'', targetSri := [6],
                         loading := False\<rparr>)) = Some example_portfolio"
    using submit_scenario [where net = "\<lambda>r. Response True (Some example_portfolio)"
        and w = initial_wizard and data = example_portfolio]
    by (simp add: Let_def)
  show "final
       (handleSubmit (\<lambda>r. Response False None)
          (initial_wizard\<lparr>step := 3, amount := ''50000'', horizon := ''long'',
                           targetSri := [6], loading := False\<rparr>)) =
       initial_wizard\<lparr>step := 3, amount := ''50000'', horizon := ''long'', targetSri := [6],
                       loading := False,
                       error := Some ''Erreur lors de la generation du portefeuille''\<rparr>"
    using submit_scenario [where net = "\<lambda>r. Response False None" and w = initial_wizard
        and body = None]
    by (simp add: Let_def)
qed

section \<open>The initial fetch\<close>

text \<open>
  What the function does with two responses whose bodies can be read, whatever their
  status, and with a response of the statistics that cannot be used: each result is
  applied on its own. In every case \<^verbatim>\<open>loading\<close> is cleared.
\<close>

lemma fetchData_end_responses:
  "fetchData_end (Response False tb) (Response True (Some d)) a =
     a\<lparr>stats := Some d, app_loading := False\<rparr>
   \<and> fetchData_end (Response True (Some t)) (Response False sb) a =
       a\<lparr>topFunds := t, app_loading := False\<rparr>
   \<and> fetchData_end (Response True (Some t)) (Response True None) a =
       a\<lparr>topFunds := t, app_loading := False\<rparr>
   \<and> fetchData_end (Response True (Some t)) (Response True (Some d)) a =
       a\<lparr>topFunds := t, stats := Some d, app_loading := False\<rparr>
   \<and> app_loading (fetchData_end topRes statsRes a) = False"
proof (intro conjI)
  show "app_loading (fetchData_end topRes statsRes a) = False"
    by (cases topRes; cases statsRes)
      (simp_all add: fetchData_end_def split: option.split)
qed (simp_all add: fetchData_end_def)

text \<open>
  C3. The claim has a failure of one of the two initial fetches leave the other one
  applied, both ways. The code does not: the list is answered with success and a body that
  cannot be read, the statistics are answered with success, and the statistics are not
  applied, because \<^verbatim>\<open>await topRes.json()\<close> throws inside the one \<^verbatim>\<open>try\<close> block before
  \<^verbatim>\<open>setStats\<close> is reached. The same loss follows a rejected request of the list. The other
  paths do what the claim says: the same failure on the side of the statistics keeps the
  list, and a non-success status of the list keeps the statistics.
\<close>

theorem fetchData_end_unreadable_list:
  "stats (fetchData_end (Response True None) (Response True (Some example_stats)) initial_App) =
     None
   \<and> stats (fetchData_end NetworkError (Response True (Some example_stats)) initial_App) = None
   \<and> topFunds (fetchData_end (Response True (Some [example_fund])) (Response True None)
        initial_App) = [example_fund]
   \<and> stats (fetchData_end (Response False None) (Response True (Some example_stats))
        initial_App) = Some example_stats"
  by (simp add: fetchData_end_def initial_App_def)

section \<open>The fetch of the ranked list\<close>

















section \<open>The result view\<close>

lemma allocation_cards_nth:
  assumes "i < length (allocations p)"
  shows "allocation_cards (PortfolioResults p) ! i = allocation_card i (allocations p ! i)"
  using assms by (simp add: PortfolioResults_def nth_enumerate_eq)

lemma in_set_opt_list: "(e \<in> set (opt_list v f)) = (\<exists>x. v = Some x \<and> e = f x)"
  by (cases v) (auto simp: opt_list_def)

lemma opt_list_case: "opt_list v f = (case v of None \<Rightarrow> [] | Some x \<Rightarrow> [f x])"
  by (simp add: opt_list_def)

lemma children_allocation_card:
  "children (allocation_card i a) =
     [RankTag (int i + 1) NoTier, FundName (name (fund a)), Isin (isin (fund a)),
      AllocationPercent (allocation_percent a), AmountEur (amount_eur a),
      SRIBadge (sri (fund a)), AssetClassBadge (asset_class (fund a))]
     @ (case priority (fund a) of None \<Rightarrow> [] | Some pr \<Rightarrow> [PriorityBadge pr])
     @ (case fundamental_score (fund a) of
          None \<Rightarrow> []
        | Some sc \<Rightarrow> if sc = 0 then [BareNumber 0] else [ScoreBadge sc])
     @ (case confidence (fund a) of None \<Rightarrow> [] | Some c \<Rightarrow> [ConfBadge (c * 100)])"
proof (cases "fundamental_score (fund a)")
  case None
  then show ?thesis by (simp add: allocation_card_def opt_list_case)
next
  case (Some sc)
  then show ?thesis by (cases "sc = 0") (simp_all add: allocation_card_def opt_list_case)
qed

lemma allocation_card_no_zone:
  "Profile x \<notin> set (children (allocation_card i a))"
  "Performance y \<notin> set (children (allocation_card i a))"
proof -
  show "Profile x \<notin> set (children (allocation_card i a))"
  proof (cases "fundamental_score (fund a)")
    case None
    then show ?thesis by (simp add: allocation_card_def in_set_opt_list)
  next
    case (Some s)
    then show ?thesis by (cases "s = 0") (simp_all add: allocation_card_def in_set_opt_list)
  qed
  show "Performance y \<notin> set (children (allocation_card i a))"
  proof (cases "fundamental_score (fund a)")
    case None
    then show ?thesis by (simp add: allocation_card_def in_set_opt_list)
  next
    case (Some s)
    then show ?thesis by (cases "s = 0") (simp_all add: allocation_card_def in_set_opt_list)
  qed
qed

lemma analysis_block_PortfolioResults:
  "analysis_block (PortfolioResults p) =
     (if average_confidence p = None
         \<and> (consensus_summary p = None \<or> consensus_summary p = Some [])
      then None
      else Some ((case average_confidence p of
                    None \<Rightarrow> []
                  | Some c \<Rightarrow> [AverageConfidence (c * 100)])
                 @ (case consensus_summary p of
                      None \<Rightarrow> []
                    | Some t \<Rightarrow> if t = [] then [] else [ConsensusSummary t])))"
proof (cases "consensus_summary p")
  case None
  then show ?thesis by (simp add: PortfolioResults_def truthy_def opt_list_case)
next
  case (Some t)
  then show ?thesis
    by (cases "t = []") (simp_all add: PortfolioResults_def truthy_def opt_list_case)
qed

text \<open>
  C9, as the code has it. The result view is a function of the suggestion: four tiles
  (total amount, fund count, average SRI, number of asset classes, which is the number of
  distinct classes since the keys of an object are distinct), the badges of the
  distribution in order, the explanation, and the block of confidence and consensus
  exactly when the average confidence is known or the consensus summary is a non-empty
  string, holding the one and the other under the same conditions. The allocation list has
  one card per allocation, in order; the card is written on its own and is not the fund
  card: it never carries a highlight tier, it holds the rank (position + 1), the name, the
  ISIN, the percentage, the amount, the badges of the SRI and of the asset class, then the
  badge of the priority when there is one, the badge of the score when the score is known
  and is not 0, and the badge of the confidence when it is known; it holds neither the
  profile of three bars nor the performance strip.
\<close>

theorem PortfolioResults_view:
  "tiles (PortfolioResults p) =
     [TotalAmount (total_amount p), FundCount (num_funds p), AverageSri (average_sri p),
      AssetClassCount (length (asset_class_distribution p))]
   \<and> (distinct (map fst (asset_class_distribution p)) \<longrightarrow>
        length (asset_class_distribution p) = card (fst ` set (asset_class_distribution p)))
   \<and> distribution_badges (PortfolioResults p) = asset_class_distribution p
   \<and> explanation_text (PortfolioResults p) = explanation p
   \<and> analysis_block (PortfolioResults p) =
       (if average_confidence p = None
           \<and> (consensus_summary p = None \<or> consensus_summary p = Some [])
        then None
        else Some ((case average_confidence p of
                      None \<Rightarrow> []
                    | Some c \<Rightarrow> [AverageConfidence (c * 100)])
                   @ (case consensus_summary p of
                        None \<Rightarrow> []
                      | Some t \<Rightarrow> if t = [] then [] else [ConsensusSummary t])))
   \<and> length (allocation_cards (PortfolioResults p)) = length (allocations p)
   \<and> (i < length (allocations p) \<longrightarrow>
        card_tier (allocation_cards (PortfolioResults p) ! i) = NoTier
        \<and> children (allocation_cards (PortfolioResults p) ! i) =
            (let a = allocations p ! i; f = fund a
             in [RankTag (int i + 1) NoTier, FundName (name f), Isin (isin f),
                 AllocationPercent (allocation_percent a), AmountEur (amount_eur a),
                 SRIBadge (sri f), AssetClassBadge (asset_class f)]
                @ (case priority f of None \<Rightarrow> [] | Some pr \<Rightarrow> [PriorityBadge pr])
                @ (case fundamental_score f of
                     None \<Rightarrow> []
                   | Some sc \<Rightarrow> if sc = 0 then [BareNumber 0] else [ScoreBadge sc])
                @ (case confidence f of None \<Rightarrow> [] | Some c \<Rightarrow> [ConfBadge (c * 100)]))
        \<and> Profile x \<notin> set (children (allocation_cards (PortfolioResults p) ! i))
        \<and> Performance y \<notin> set (children (allocation_cards (PortfolioResults p) ! i)))"
proof (intro conjI impI)
  show "tiles (PortfolioResults p) =
     [TotalAmount (total_amount p), FundCount (num_funds p), AverageSri (average_sri p),
      AssetClassCount (length (asset_class_distribution p))]"
    by (simp add: PortfolioResults_def)
  show "distribution_badges (PortfolioResults p) = asset_class_distribution p"
    and "explanation_text (PortfolioResults p) = explanation p"
    and "length (allocation_cards (PortfolioResults p)) = length (allocations p)"
    by (simp_all add: PortfolioResults_def)
  show "analysis_block (PortfolioResults p) =
       (if average_confidence p = None
           \<and> (consensus_summary p = None \<or> consensus_summary p = Some [])
        then None
        else Some ((case average_confidence p of
                      None \<Rightarrow> []
                    | Some c \<Rightarrow> [AverageConfidence (c * 100)])
                   @ (case consensus_summary p of
                        None \<Rightarrow> []
                      | Some t \<Rightarrow> if t = [] then [] else [ConsensusSummary t])))"
    by (rule analysis_block_PortfolioResults)
next
  assume "distinct (map fst (asset_class_distribution p))"
  then have "card (set (map fst (asset_class_distribution p))) =
             length (map fst (asset_class_distribution p))"
    by (rule distinct_card)
  then show "length (asset_class_distribution p) = card (fst ` set (asset_class_distribution p))"
    by simp
next
  assume i: "i < length (allocations p)"
  note nth = allocation_cards_nth [OF i]
  show "card_tier (allocation_cards (PortfolioResults p) ! i) = NoTier"
    unfolding nth by (simp add: allocation_card_def)
  show "children (allocation_cards (PortfolioResults p) ! i) =
            (let a = allocations p ! i; f = fund a
             in [RankTag (int i + 1) NoTier, FundName (name f), Isin (isin f),
                 AllocationPercent (allocation_percent a), AmountEur (amount_eur a),
                 SRIBadge (sri f), AssetClassBadge (asset_class f)]
                @ (case priority f of None \<Rightarrow> [] | Some pr \<Rightarrow> [PriorityBadge pr])
                @ (case fundamental_score f of
                     None \<Rightarrow> []
                   | Some sc \<Rightarrow> if sc = 0 then [BareNumber 0] else [ScoreBadge sc])
                @ (case confidence f of None \<Rightarrow> [] | Some c \<Rightarrow> [ConfBadge (c * 100)]))"
    unfolding nth Let_def by (rule children_allocation_card)
  show "Profile x \<notin> set (children (allocation_cards (PortfolioResults p) ! i))"
    and "Performance y \<notin> set (children (allocation_cards (PortfolioResults p) ! i))"
    unfolding nth by (rule allocation_card_no_zone)+
qed

theorem PortfolioResults_view_witness:
  "card_tier (allocation_cards (PortfolioResults example_portfolio) ! 0) = NoTier
   \<and> take 7 (children (allocation_cards (PortfolioResults example_portfolio) ! 0)) =
       [RankTag 1 NoTier, FundName ''Fonds A'', Isin ''FR0000000001'', AllocationPercent 100,
        AmountEur 50000, SRIBadge 4, AssetClassBadge ''actions'']
   \<and> length (asset_class_distribution example_portfolio) = 1"
proof -
  have "distinct (map fst (asset_class_distribution example_portfolio))"
    and "0 < length (allocations example_portfolio)"
    by (simp_all add: example_portfolio_def)
  with PortfolioResults_view [of example_portfolio 0]
  have tier: "card_tier (allocation_cards (PortfolioResults example_portfolio) ! 0) = NoTier"
    and kids: "children (allocation_cards (PortfolioResults example_portfolio) ! 0) =
            (let a = allocations example_portfolio ! 0; f = fund a
             in [RankTag (int 0 + 1) NoTier, FundName (name f), Isin (isin f),
                 AllocationPercent (allocation_percent a), AmountEur (amount_eur a),
                 SRIBadge (sri f), AssetClassBadge (asset_class f)]
                @ (case priority f of None \<Rightarrow> [] | Some pr \<Rightarrow> [PriorityBadge pr])
                @ (case fundamental_score f of
                     None \<Rightarrow> []
                   | Some sc \<Rightarrow> if sc = 0 then [BareNumber 0] else [ScoreBadge sc])
                @ (case confidence f of None \<Rightarrow> [] | Some c \<Rightarrow> [ConfBadge (c * 100)]))"
    and classes: "length (asset_class_distribution example_portfolio) =
          card (fst ` set (asset_class_distribution example_portfolio))"
    by blast+
  have "take 7 (children (allocation_cards (PortfolioResults example_portfolio) ! 0)) =
       [RankTag 1 NoTier, FundName ''Fonds A'', Isin ''FR0000000001'', AllocationPercent 100,
        AmountEur 50000, SRIBadge 4, AssetClassBadge ''actions'']"
    unfolding kids by (simp add: example_portfolio_def example_fund_def)
  moreover have "length (asset_class_distribution example_portfolio) = 1"
    using classes by (simp add: example_portfolio_def)
  ultimately show ?thesis using tier by simp
qed

text \<open>
  The claim as stated has the fund card in the allocation list; for the one fund of the
  example, at rank 1, the fund card is gold and holds the profile and the performance
  strip, and the card of the allocation list is another one, in either view mode.
\<close>

theorem PortfolioResults_counterexample:
  "allocation_cards (PortfolioResults example_portfolio) \<noteq>
     spec_allocation_cards simple example_portfolio
   \<and> allocation_cards (PortfolioResults example_portfolio) \<noteq>
       spec_allocation_cards advanced example_portfolio
   \<and> map card_tier (spec_allocation_cards simple example_portfolio) = [Gold]
   \<and> map card_tier (allocation_cards (PortfolioResults example_portfolio)) = [NoTier]"
  by (simp add: PortfolioResults_def spec_allocation_cards_def example_portfolio_def
      allocation_card_def FundCard_def isTopRank_def topRankStyles_def)

text \<open>
  The two guards of the optional badges: the badge of the score is there exactly when the
  score is known and is not 0, the badge of the confidence exactly when the confidence is
  known.
\<close>

lemma allocation_card_score_badge:
  "(ScoreBadge x \<in> set (children (allocation_card i a))) =
     (fundamental_score (fund a) = Some x \<and> x \<noteq> 0)"
proof (cases "fundamental_score (fund a)")
  case None
  then show ?thesis by (simp add: allocation_card_def in_set_opt_list)
next
  case (Some s)
  show ?thesis
  proof (cases "s = 0")
    case True
    with Some show ?thesis by (simp add: allocation_card_def in_set_opt_list)
  next
    case False
    with Some have "(ScoreBadge x \<in> set (children (allocation_card i a))) = (x = s)"
      by (simp add: allocation_card_def in_set_opt_list)
    with Some False show ?thesis by auto
  qed
qed

lemma allocation_card_conf_badge:
  "(ConfBadge y \<in> set (children (allocation_card i a))) =
     (\<exists>c. confidence (fund a) = Some c \<and> y = c * 100)"
proof (cases "fundamental_score (fund a)")
  case None
  then show ?thesis by (simp add: allocation_card_def in_set_opt_list)
next
  case (Some s)
  then show ?thesis by (cases "s = 0") (simp_all add: allocation_card_def in_set_opt_list)
qed

text \<open>
  C10. The claim has a score of exactly 0 treated like a missing score. The badge of the
  score is guarded by \<^verbatim>\<open>alloc.fund.fundamental_score && (...)\<close>: with the score 0 the
  expression is the number 0, which React prints. So the card of the fund of the example,
  whose score and confidence are 0, holds the bare number 0 where the badge of the score
  would be, and the badge of the confidence; the card of the same fund without a score
  holds nothing there.
\<close>

theorem allocation_card_zero_score:
  "children (allocation_cards (PortfolioResults example_portfolio) ! 0) =
     [RankTag 1 NoTier, FundName ''Fonds A'', Isin ''FR0000000001'', AllocationPercent 100,
      AmountEur 50000, SRIBadge 4, AssetClassBadge ''actions'', BareNumber 0, ConfBadge 0]
   \<and> children
       (allocation_cards
          (PortfolioResults
             (example_portfolio
                \<lparr>allocations :=
                   [\<lparr>fund = example_fund\<lparr>fundamental_score := None\<rparr>,
                     allocation_percent = 100, amount_eur = 50000\<rparr>]\<rparr>)) ! 0) =
       [RankTag 1 NoTier, FundName ''Fonds A'', Isin ''FR0000000001'', AllocationPercent 100,
        AmountEur 50000, SRIBadge 4, AssetClassBadge ''actions'', ConfBadge 0]"
  by (simp add: PortfolioResults_def allocation_card_def opt_list_def example_portfolio_def
      example_fund_def)

theorem allocation_card_zero_score_witness:
  "BareNumber 0 \<in> set (children (allocation_cards (PortfolioResults example_portfolio) ! 0))
   \<and> BareNumber 0 \<notin>
       set (children
              (allocation_cards
                 (PortfolioResults
                    (example_portfolio
                       \<lparr>allocations :=
                          [\<lparr>fund = example_fund\<lparr>fundamental_score := None\<rparr>,
                            allocation_percent = 100, amount_eur = 50000\<rparr>]\<rparr>)) ! 0))"
  using allocation_card_zero_score by simp

end
